theory Spec2Isabelle
  imports Main "HOL-Library.Word" "HOL-Library.Sublist"
begin

section \<open>Python values seen by the query executor\<close>

text \<open>
  A Python \<open>str\<close> is a sequence of Unicode code points, a \<open>bytes\<close> object a sequence of
  octets, and a \<open>float\<close> an IEEE-754 double, kept here as its bit pattern: the executor
  never computes with a float cell, it only hands it on.
\<close>

type_synonym pystr = "nat list"
type_synonym byte = "8 word"
type_synonym pyfloat = "64 word"

definition lit :: "string \<Rightarrow> pystr" where
  "lit s = map of_char s"

subsection \<open>Exceptions\<close>

text \<open>
  The exception classes of \<open>sqlalchemy.exc\<close> that the executor imports, with the classes
  between them and \<open>Exception\<close>, and \<open>Subclass name base\<close> for any other class
  (\<open>ArgumentError\<close> under \<open>SQLAlchemyError\<close>, \<open>IndexError\<close> under \<open>LookupError\<close>, a
  driver's own subclass of \<open>OperationalError\<close>, ...). Only classes below \<open>Exception\<close> are
  modelled: the interpreter's signals that derive from \<open>BaseException\<close> alone
  (\<open>KeyboardInterrupt\<close>, \<open>SystemExit\<close>) are not faults of a connection or a statement.
  Inheritance is single, as it is throughout \<open>sqlalchemy.exc\<close>.
\<close>

datatype exc_class =
    Exception
  | SQLAlchemyError
  | StatementError
  | DBAPIError
  | InterfaceError
  | DatabaseError
  | DataError
  | OperationalError
  | IntegrityError
  | InternalError
  | ProgrammingError
  | NotSupportedError
  | Subclass string exc_class

text \<open>The method resolution order: the class itself, then its bases up to \<open>Exception\<close>.\<close>

fun mro :: "exc_class \<Rightarrow> exc_class list" where
  "mro Exception = [Exception]"
| "mro SQLAlchemyError = [SQLAlchemyError, Exception]"
| "mro StatementError = [StatementError, SQLAlchemyError, Exception]"
| "mro DBAPIError = [DBAPIError, StatementError, SQLAlchemyError, Exception]"
| "mro InterfaceError =
     [InterfaceError, DBAPIError, StatementError, SQLAlchemyError, Exception]"
| "mro DatabaseError =
     [DatabaseError, DBAPIError, StatementError, SQLAlchemyError, Exception]"
| "mro DataError =
     [DataError, DatabaseError, DBAPIError, StatementError, SQLAlchemyError, Exception]"
| "mro OperationalError =
     [OperationalError, DatabaseError, DBAPIError, StatementError, SQLAlchemyError, Exception]"
| "mro IntegrityError =
     [IntegrityError, DatabaseError, DBAPIError, StatementError, SQLAlchemyError, Exception]"
| "mro InternalError =
     [InternalError, DatabaseError, DBAPIError, StatementError, SQLAlchemyError, Exception]"
| "mro ProgrammingError =
     [ProgrammingError, DatabaseError, DBAPIError, StatementError, SQLAlchemyError, Exception]"
| "mro NotSupportedError =
     [NotSupportedError, DatabaseError, DBAPIError, StatementError, SQLAlchemyError, Exception]"
| "mro (Subclass name base) = Subclass name base # mro base"

definition issubclass :: "exc_class \<Rightarrow> exc_class \<Rightarrow> bool" where
  "issubclass c d = (d \<in> set (mro c))"

text \<open>
  An exception object, as far as the executor looks at it: its class, \<open>str(e)\<close>, and the
  attribute \<open>orig\<close> (the driver's own exception) when the object has one. Of \<open>e.orig\<close> the
  executor reads the truth value and \<open>str(e.orig)\<close>; \<open>e.orig = None\<close> is
  \<open>Orig False (lit ''None'')\<close>.
\<close>

datatype orig_attr = Orig (orig_truthy: bool) (orig_str: pystr)

datatype exc = Exc (exc_cls: exc_class) (exc_str: pystr) (exc_orig: "orig_attr option")

definition isinstance :: "exc \<Rightarrow> exc_class \<Rightarrow> bool" where
  "isinstance e c = issubclass (exc_cls e) c"

subsection \<open>Decoding bytes as UTF-8\<close>

text \<open>
  \<open>bytes.decode("utf-8", errors=...)\<close> of the Python standard library. A well-formed
  sequence gives its code point; an ill-formed one raises \<open>UnicodeDecodeError\<close> under
  \<open>errors="strict"\<close> and is replaced by U+FFFD under \<open>errors="replace"\<close>, one replacement
  for each maximal prefix of a well-formed sequence, which is what CPython's decoder
  does. \<open>utf8_first b0 rest\<close> decodes the sequence that the lead byte \<open>b0\<close> starts and
  says how many bytes of \<open>rest\<close> belong to it. The exception's message is shortened:
  nothing reads it.
\<close>

datatype decode_errors = Strict | Replace

definition REPLACEMENT_CHARACTER :: nat where
  "REPLACEMENT_CHARACTER = 0xFFFD"

definition UnicodeDecodeError :: exc where
  "UnicodeDecodeError =
     Exc (Subclass ''UnicodeDecodeError'' (Subclass ''UnicodeError''
            (Subclass ''ValueError'' Exception)))
         (lit ''utf-8 codec cannot decode bytes'') None"

definition is_continuation :: "byte \<Rightarrow> bool" where
  "is_continuation b = (0x80 \<le> b \<and> b \<le> 0xBF)"

definition second_ok :: "byte \<Rightarrow> byte \<Rightarrow> bool" where
  "second_ok b0 b1 =
     (if b0 = 0xE0 then 0xA0 \<le> b1 \<and> b1 \<le> 0xBF
      else if b0 = 0xED then 0x80 \<le> b1 \<and> b1 \<le> 0x9F
      else if b0 = 0xF0 then 0x90 \<le> b1 \<and> b1 \<le> 0xBF
      else if b0 = 0xF4 then 0x80 \<le> b1 \<and> b1 \<le> 0x8F
      else is_continuation b1)"

definition payload :: "byte \<Rightarrow> nat" where
  "payload b = unat b mod 64"

fun utf8_first :: "byte \<Rightarrow> byte list \<Rightarrow> nat option \<times> nat" where
  "utf8_first b0 rest =
     (if b0 < 0x80 then (Some (unat b0), 0)
      else if b0 < 0xC2 \<or> 0xF4 < b0 then (None, 0)
      else (case rest of
              [] \<Rightarrow> (None, 0)
            | b1 # r1 \<Rightarrow>
                if \<not> second_ok b0 b1 then (None, 0)
                else if b0 < 0xE0 then (Some (unat b0 mod 32 * 64 + payload b1), 1)
                else (case r1 of
                        [] \<Rightarrow> (None, 1)
                      | b2 # r2 \<Rightarrow>
                          if \<not> is_continuation b2 then (None, 1)
                          else if b0 < 0xF0
                            then (Some (unat b0 mod 16 * 4096 + payload b1 * 64 + payload b2), 2)
                          else (case r2 of
                                  [] \<Rightarrow> (None, 2)
                                | b3 # r3 \<Rightarrow>
                                    if \<not> is_continuation b3 then (None, 2)
                                    else (Some (unat b0 mod 8 * 262144 + payload b1 * 4096
                                                + payload b2 * 64 + payload b3), 3)))))"

fun bytes_decode_utf8 :: "decode_errors \<Rightarrow> byte list \<Rightarrow> exc + pystr" where
  "bytes_decode_utf8 errors [] = Inr []"
| "bytes_decode_utf8 errors (b0 # rest) =
     (case utf8_first b0 rest of
        (Some cp, n) \<Rightarrow>
          (case bytes_decode_utf8 errors (drop n rest) of
             Inl e \<Rightarrow> Inl e
           | Inr s \<Rightarrow> Inr (cp # s))
      | (None, n) \<Rightarrow>
          (case errors of
             Strict \<Rightarrow> Inl UnicodeDecodeError
           | Replace \<Rightarrow>
               (case bytes_decode_utf8 errors (drop n rest) of
                  Inl e \<Rightarrow> Inl e
                | Inr s \<Rightarrow> Inr (REPLACEMENT_CHARACTER # s))))"

subsection \<open>Cell values and the serializer\<close>

text \<open>
  A raw cell value: \<open>None\<close>, an instance of one of the built-in types the serializer
  tests for, or any other object. Of another object the serializer reads whether it has
  an attribute \<open>isoformat\<close> (then \<open>obj_isoformat\<close> is what \<open>value.isoformat()\<close> returns),
  whether it has \<open>__dict__\<close>, and \<open>str(value)\<close>. The objects a driver hands out
  (\<open>datetime\<close>, \<open>date\<close>, \<open>time\<close>, \<open>Decimal\<close>, \<open>UUID\<close>, \<open>memoryview\<close>, ...) answer both
  calls with a \<open>str\<close>. A \<open>memoryview\<close>, which is what psycopg2 hands out for a \<open>bytea\<close>
  column, is kept apart with the bytes it views and its \<open>str(value)\<close>, a text of the
  form \<open><memory at 0x...>\<close>: it is not an instance of \<open>bytes\<close>, and it has neither
  \<open>isoformat\<close> nor \<open>__dict__\<close>.
\<close>

datatype pyobject = Object (obj_isoformat: "pystr option") (obj_has_dict: bool) (obj_str: pystr)

datatype pyval =
    PyNone
  | PyStr pystr
  | PyInt int
  | PyFloat pyfloat
  | PyBool bool
  | PyBytes "byte list"
  | PyMemoryview "byte list" pystr
  | PyObject pyobject

text \<open>\<open>_serialize_value\<close> of \<open>sql_executor.py\<close>, its tests in the order of the source.\<close>

fun serialize_value :: "pyval \<Rightarrow> exc + pyval" where
  "serialize_value PyNone = Inr PyNone"
| "serialize_value (PyStr s) = Inr (PyStr s)"
| "serialize_value (PyInt i) = Inr (PyInt i)"
| "serialize_value (PyFloat f) = Inr (PyFloat f)"
| "serialize_value (PyBool b) = Inr (PyBool b)"
| "serialize_value (PyBytes bs) =
     (case bytes_decode_utf8 Replace bs of
        Inl e \<Rightarrow> Inl e
      | Inr s \<Rightarrow> Inr (PyStr s))"
| "serialize_value (PyMemoryview viewed shown) = Inr (PyStr shown)"
| "serialize_value (PyObject ob) =
     (case obj_isoformat ob of
        Some t \<Rightarrow> Inr (PyStr t)
      | None \<Rightarrow>
          if obj_has_dict ob then Inr (PyStr (obj_str ob))
          else Inr (PyStr (obj_str ob)))"

section \<open>The executor\<close>

subsection \<open>The result record\<close>

text \<open>
  \<open>SQLQueryOutput\<close> of \<open>models.py\<close>. A Python \<open>dict\<close> keeps its keys in insertion order:
  it is an association list without repeated keys, and storing under a key that is
  already there replaces the value in place.
\<close>

type_synonym ('k, 'v) pydict = "('k \<times> 'v) list"

fun dict_setitem :: "'k \<Rightarrow> 'v \<Rightarrow> ('k, 'v) pydict \<Rightarrow> ('k, 'v) pydict" where
  "dict_setitem k v [] = [(k, v)]"
| "dict_setitem k v (p # ps) =
     (if fst p = k then (k, v) # ps else p # dict_setitem k v ps)"

record SQLQueryOutput =
  success :: bool
  rows :: "(pystr, pyval) pydict list option"
  row_count :: int
  columns :: "pystr list option"
  error :: "pystr option"
  error_type :: "pystr option"
  execution_time_ms :: "pyfloat option"

text \<open>The constructor, with the field defaults of \<open>models.py\<close>; only \<open>success\<close> is required.\<close>

definition SQLQueryOutput_init :: "bool \<Rightarrow> SQLQueryOutput" where
  "SQLQueryOutput_init s =
     \<lparr>success = s, rows = None, row_count = 0, columns = None, error = None,
      error_type = None, execution_time_ms = None\<rparr>"

subsection \<open>The database access layer\<close>

text \<open>
  What SQLAlchemy and the driver answer during one call of the executor. Every call may
  raise. \<open>elapsed_ms\<close> is the rounded reading of the clock where the result is built:
  \<open>round((time.perf_counter() - start_time) * 1000, 2)\<close>, floating-point arithmetic
  that is not modelled.
\<close>

record cursor_result =
  returns_rows :: bool
  fetchall :: "exc + pyval list list"
  keys :: "exc + pystr list"
  rowcount :: "exc + int"

record driver =
  create_engine :: "pystr \<Rightarrow> (pystr, int) pydict \<Rightarrow> exc option"
  connect :: "pystr \<Rightarrow> (pystr, int) pydict \<Rightarrow> exc option"
  execute :: "pystr \<Rightarrow> (pystr, pyval) pydict option \<Rightarrow> exc + cursor_result"
  commit :: "exc option"
  close :: "exc option"
  elapsed_ms :: pyfloat

text \<open>The calls made on the access layer, in the order they are made.\<close>

datatype event =
    CreateEngine pystr "(pystr, int) pydict"
  | Connect
  | Execute pystr "(pystr, pyval) pydict option"
  | Fetchall
  | Commit
  | Close

subsection \<open>The body of the \<open>try\<close> block\<close>

text \<open>\<open>needle in haystack\<close> on strings.\<close>

fun str_contains :: "pystr \<Rightarrow> pystr \<Rightarrow> bool" where
  "str_contains needle [] = (needle = [])"
| "str_contains needle (c # cs) = (prefix needle (c # cs) \<or> str_contains needle cs)"

text \<open>\<open>{"connect_timeout": 10} if "sqlite" not in database_url else {}\<close>\<close>

definition connect_args :: "pystr \<Rightarrow> (pystr, int) pydict" where
  "connect_args database_url =
     (if \<not> str_contains (lit ''sqlite'') database_url
      then [(lit ''connect_timeout'', 10)] else [])"


text \<open>\<open>row[i]\<close>: a row is a tuple, and an index past its end raises \<open>IndexError\<close>.\<close>

definition IndexError :: exc where
  "IndexError =
     Exc (Subclass ''IndexError'' (Subclass ''LookupError'' Exception))
         (lit ''tuple index out of range'') None"

definition row_getitem :: "pyval list \<Rightarrow> nat \<Rightarrow> exc + pyval" where
  "row_getitem row i = (if i < length row then Inr (row ! i) else Inl IndexError)"

text \<open>
  \<open>{col: _serialize_value(row[i]) for i, col in enumerate(columns)}\<close>: the columns left
  to right from index \<open>i\<close>, each stored into the dict built so far.
\<close>

fun row_as_dict ::
  "pystr list \<Rightarrow> nat \<Rightarrow> pyval list \<Rightarrow> (pystr, pyval) pydict \<Rightarrow> exc + (pystr, pyval) pydict"
where
  "row_as_dict [] i row acc = Inr acc"
| "row_as_dict (col # cols) i row acc =
     (case row_getitem row i of
        Inl e \<Rightarrow> Inl e
      | Inr cell \<Rightarrow>
          (case serialize_value cell of
             Inl e \<Rightarrow> Inl e
           | Inr v \<Rightarrow> row_as_dict cols (Suc i) row (dict_setitem col v acc)))"

fun rows_as_dicts ::
  "pystr list \<Rightarrow> pyval list list \<Rightarrow> exc + (pystr, pyval) pydict list"
where
  "rows_as_dicts cols [] = Inr []"
| "rows_as_dicts cols (row # others) =
     (case row_as_dict cols 0 row [] of
        Inl e \<Rightarrow> Inl e
      | Inr d \<Rightarrow>
          (case rows_as_dicts cols others of
             Inl e \<Rightarrow> Inl e
           | Inr ds \<Rightarrow> Inr (d # ds)))"

text \<open>The two branches on \<open>result.returns_rows\<close>, lines 64 to 96.\<close>

definition handle_result :: "driver \<Rightarrow> cursor_result \<Rightarrow> (exc + SQLQueryOutput) \<times> event list" where
  "handle_result d result =
     (if returns_rows result then
        (case fetchall result of
           Inl e \<Rightarrow> (Inl e, [Fetchall])
         | Inr fetched \<Rightarrow>
             (case keys result of
                Inl e \<Rightarrow> (Inl e, [Fetchall])
              | Inr cols \<Rightarrow>
                  (case rows_as_dicts cols fetched of
                     Inl e \<Rightarrow> (Inl e, [Fetchall])
                   | Inr ds \<Rightarrow>
                       (Inr ((SQLQueryOutput_init True)
                               \<lparr>rows := Some ds, row_count := int (length ds),
                                columns := Some cols,
                                execution_time_ms := Some (elapsed_ms d)\<rparr>),
                        [Fetchall]))))
      else
        (case commit d of
           Some e \<Rightarrow> (Inl e, [Commit])
         | None \<Rightarrow>
             (case rowcount result of
                Inl e \<Rightarrow> (Inl e, [Commit])
              | Inr n \<Rightarrow>
                  (Inr ((SQLQueryOutput_init True)
                          \<lparr>rows := None, row_count := (if n \<ge> 0 then n else 0),
                           columns := None,
                           execution_time_ms := Some (elapsed_ms d)\<rparr>),
                   [Commit]))))"

text \<open>
  \<open>if params:\<close> is false for \<open>None\<close> and for the empty dict; \<open>connection.execute\<close> gets
  the parameters only in the first branch.
\<close>

definition bound_params :: "(pystr, pyval) pydict option \<Rightarrow> (pystr, pyval) pydict option" where
  "bound_params params =
     (case params of
        None \<Rightarrow> None
      | Some ps \<Rightarrow> if ps \<noteq> [] then Some ps else None)"

definition in_connection ::
  "driver \<Rightarrow> pystr \<Rightarrow> (pystr, pyval) pydict option \<Rightarrow> (exc + SQLQueryOutput) \<times> event list"
where
  "in_connection d query params =
     (case execute d query (bound_params params) of
        Inl e \<Rightarrow> (Inl e, [Execute query (bound_params params)])
      | Inr result \<Rightarrow>
          (case handle_result d result of
             (r, evs) \<Rightarrow> (r, Execute query (bound_params params) # evs)))"

text \<open>
  The whole \<open>try\<close> block. Leaving the \<open>with\<close> block closes the connection on every way
  out; an exception of \<open>close\<close> replaces the block's own outcome.
\<close>

definition try_body ::
  "driver \<Rightarrow> pystr \<Rightarrow> pystr \<Rightarrow> (pystr, pyval) pydict option
   \<Rightarrow> (exc + SQLQueryOutput) \<times> event list"
where
  "try_body d database_url query params =
     (case create_engine d database_url (connect_args database_url) of
        Some e \<Rightarrow> (Inl e, [CreateEngine database_url (connect_args database_url)])
      | None \<Rightarrow>
          (case connect d database_url (connect_args database_url) of
             Some e \<Rightarrow>
               (Inl e, [CreateEngine database_url (connect_args database_url), Connect])
           | None \<Rightarrow>
               (case in_connection d query params of
                  (r, evs) \<Rightarrow>
                    (case close d of
                       Some e \<Rightarrow> Inl e
                     | None \<Rightarrow> r,
                     CreateEngine database_url (connect_args database_url) # Connect
                       # evs @ [Close]))))"

subsection \<open>The \<open>except\<close> clauses\<close>

definition failure :: "pystr \<Rightarrow> pystr \<Rightarrow> pyfloat \<Rightarrow> SQLQueryOutput" where
  "failure msg kind t =
     (SQLQueryOutput_init False)
       \<lparr>error := Some msg, error_type := Some kind, execution_time_ms := Some t\<rparr>"

text \<open>\<open>str(e.orig) if hasattr(e, "orig") and e.orig else str(e)\<close>\<close>

definition orig_or_str :: "exc \<Rightarrow> pystr" where
  "orig_or_str e =
     (case exc_orig e of
        Some og \<Rightarrow> if orig_truthy og then orig_str og else exc_str e
      | None \<Rightarrow> exc_str e)"

text \<open>The clauses in the order of the source, lines 98 to 156.\<close>

definition handlers :: "(exc_class \<times> (exc \<Rightarrow> pyfloat \<Rightarrow> SQLQueryOutput)) list" where
  "handlers =
     [(OperationalError,
         \<lambda>e. failure (lit ''Connection error: '' @ orig_or_str e) (lit ''connection_error'')),
      (ProgrammingError,
         \<lambda>e. failure (lit ''SQL error: '' @ orig_or_str e) (lit ''syntax_error'')),
      (IntegrityError,
         \<lambda>e. failure (lit ''Constraint violation: '' @ orig_or_str e) (lit ''integrity_error'')),
      (DatabaseError,
         \<lambda>e. failure (lit ''Database error: '' @ orig_or_str e) (lit ''database_error'')),
      (SQLAlchemyError,
         \<lambda>e. failure (lit ''Query error: '' @ exc_str e) (lit ''sqlalchemy_error'')),
      (Exception,
         \<lambda>e. failure (lit ''Unexpected error: '' @ exc_str e) (lit ''unexpected_error''))]"

text \<open>
  A \<open>try\<close> statement runs the first clause whose class the exception is an instance of;
  with no such clause the exception goes on to the caller.
\<close>

fun first_handler :: "(exc_class \<times> 'h) list \<Rightarrow> exc \<Rightarrow> (exc_class \<times> 'h) option" where
  "first_handler [] e = None"
| "first_handler ((c, h) # hs) e =
     (if isinstance e c then Some (c, h) else first_handler hs e)"

text \<open>\<open>_execute_query_sync\<close>: the outcome, an exception that escapes being \<open>Inl\<close>, and the calls made.\<close>

definition execute_query_sync ::
  "driver \<Rightarrow> pystr \<Rightarrow> pystr \<Rightarrow> (pystr, pyval) pydict option
   \<Rightarrow> (exc + SQLQueryOutput) \<times> event list"
where
  "execute_query_sync d database_url query params =
     (case try_body d database_url query params of
        (Inr out, evs) \<Rightarrow> (Inr out, evs)
      | (Inl e, evs) \<Rightarrow>
          (case first_handler handlers e of
             None \<Rightarrow> (Inl e, evs)
           | Some (c, h) \<Rightarrow> (Inr (h e (elapsed_ms d)), evs)))"

subsection \<open>Counting, for the result's invariant\<close>

definition exactly_one :: "bool list \<Rightarrow> bool" where
  "exactly_one bs = (length (filter id bs) = 1)"

section \<open>Scenarios\<close>

text \<open>
  Access layers for concrete calls, with the results expected of the executor: a
  statement that returns one row with one column, one that returns two columns of the
  same name, a statement without a row set for which the driver reports the count -1, an
  insert of one row, a server that refuses the connection, and an insert that violates a
  uniqueness constraint.
\<close>

definition answering :: "(exc + cursor_result) \<Rightarrow> driver" where
  "answering r =
     \<lparr>create_engine = (\<lambda>url args. None), connect = (\<lambda>url args. None),
      execute = (\<lambda>query params. r), commit = None, close = None, elapsed_ms = 0\<rparr>"

definition select_one_url :: pystr where
  "select_one_url = lit ''sqlite:///:memory:''"

definition postgres_url :: pystr where
  "postgres_url = lit ''postgresql://app@db.example/orders''"

definition postgres_url_naming_sqlite :: pystr where
  "postgres_url_naming_sqlite = lit ''postgresql://app@db.example/sqlite_import''"


text \<open>The cell of a \<open>bytea\<close> column holding the three bytes of \<open>abc\<close>, as psycopg2 returns it.\<close>

definition bytea_cell :: pyval where
  "bytea_cell = PyMemoryview [0x61, 0x62, 0x63] (lit ''<memory at 0x7f9c2a1b3d00>'')"


definition select_one_result :: cursor_result where
  "select_one_result =
     \<lparr>returns_rows = True, fetchall = Inr [[PyInt 1]], keys = Inr [lit ''x''],
      rowcount = Inr (- 1)\<rparr>"

definition select_one :: driver where
  "select_one = answering (Inr select_one_result)"

definition select_one_output :: SQLQueryOutput where
  "select_one_output =
     \<lparr>success = True, rows = Some [[(lit ''x'', PyInt 1)]], row_count = 1,
      columns = Some [lit ''x''], error = None, error_type = None,
      execution_time_ms = Some 0\<rparr>"

definition select_same_name_twice :: driver where
  "select_same_name_twice =
     answering (Inr \<lparr>returns_rows = True, fetchall = Inr [[PyInt 1, PyInt 2]],
                      keys = Inr [lit ''x'', lit ''x''], rowcount = Inr (- 1)\<rparr>)"

definition select_same_name_twice_output :: SQLQueryOutput where
  "select_same_name_twice_output =
     \<lparr>success = True, rows = Some [[(lit ''x'', PyInt 2)]], row_count = 1,
      columns = Some [lit ''x'', lit ''x''], error = None, error_type = None,
      execution_time_ms = Some 0\<rparr>"

definition create_table_result :: cursor_result where
  "create_table_result =
     \<lparr>returns_rows = False, fetchall = Inr [], keys = Inr [], rowcount = Inr (- 1)\<rparr>"

definition create_table :: driver where
  "create_table = answering (Inr create_table_result)"

definition create_table_output :: SQLQueryOutput where
  "create_table_output =
     \<lparr>success = True, rows = None, row_count = 0, columns = None, error = None,
      error_type = None, execution_time_ms = Some 0\<rparr>"

definition insert_row :: driver where
  "insert_row =
     answering (Inr \<lparr>returns_rows = False, fetchall = Inr [], keys = Inr [],
                      rowcount = Inr 1\<rparr>)"

definition connection_refused :: exc where
  "connection_refused =
     Exc OperationalError (lit ''(psycopg2.OperationalError) connection refused'')
       (Some (Orig True (lit ''connection refused'')))"

definition unreachable :: driver where
  "unreachable = (answering (Inl connection_refused))
     \<lparr>connect := (\<lambda>url args. Some connection_refused)\<rparr>"

definition unique_violation :: exc where
  "unique_violation =
     Exc IntegrityError (lit ''(sqlite3.IntegrityError) UNIQUE constraint failed: t.id'')
       (Some (Orig True (lit ''UNIQUE constraint failed: t.id'')))"

definition violating_insert :: driver where
  "violating_insert = answering (Inl unique_violation)"

section \<open>Properties\<close>

subsection \<open>The UTF-8 decoder\<close>

lemma decode_replace_total: "\<exists>s. bytes_decode_utf8 Replace bs = Inr s"
proof (induction bs rule: length_induct)
  case (1 bs)
  show ?case
  proof (cases bs)
    case Nil
    then show ?thesis by simp
  next
    case (Cons b0 rest)
    obtain r n where f: "utf8_first b0 rest = (r, n)"
      by (cases "utf8_first b0 rest")
    have "length (drop n rest) < length bs"
      using Cons by simp
    with 1 obtain s where "bytes_decode_utf8 Replace (drop n rest) = Inr s"
      by blast
    with Cons f show ?thesis
      by (cases r) (simp_all del: utf8_first.simps)
  qed
qed

lemma decode_strict_replace:
  "bytes_decode_utf8 Strict bs = Inr t \<Longrightarrow> bytes_decode_utf8 Replace bs = Inr t"
proof (induction bs arbitrary: t rule: length_induct)
  case (1 bs)
  show ?case
  proof (cases bs)
    case Nil
    with 1 show ?thesis by simp
  next
    case (Cons b0 rest)
    obtain r n where f: "utf8_first b0 rest = (r, n)"
      by (cases "utf8_first b0 rest")
    have len: "length (drop n rest) < length bs"
      using Cons by simp
    from 1(2) Cons f obtain cp u where r: "r = Some cp"
      and u: "bytes_decode_utf8 Strict (drop n rest) = Inr u" and t: "t = cp # u"
      by (cases r) (auto simp del: utf8_first.simps split: sum.splits)
    from 1(1) len u have "bytes_decode_utf8 Replace (drop n rest) = Inr u"
      by blast
    with Cons f r t show ?thesis
      by (simp del: utf8_first.simps)
  qed
qed

lemma decode_replace_marks:
  "bytes_decode_utf8 Strict bs = Inl e \<Longrightarrow> bytes_decode_utf8 Replace bs = Inr t \<Longrightarrow>
   REPLACEMENT_CHARACTER \<in> set t"
proof (induction bs arbitrary: t rule: length_induct)
  case (1 bs)
  show ?case
  proof (cases bs)
    case Nil
    with 1 show ?thesis by simp
  next
    case (Cons b0 rest)
    obtain r n where f: "utf8_first b0 rest = (r, n)"
      by (cases "utf8_first b0 rest")
    have len: "length (drop n rest) < length bs"
      using Cons by simp
    show ?thesis
    proof (cases r)
      case None
      with 1(3) Cons f show ?thesis
        by (auto simp del: utf8_first.simps split: sum.splits)
    next
      case (Some cp)
      with 1(2) Cons f have s: "bytes_decode_utf8 Strict (drop n rest) = Inl e"
        by (auto simp del: utf8_first.simps split: sum.splits)
      from Some 1(3) Cons f obtain u where
        u: "bytes_decode_utf8 Replace (drop n rest) = Inr u" and t: "t = cp # u"
        by (auto simp del: utf8_first.simps split: sum.splits)
      from 1(1) len s u have "REPLACEMENT_CHARACTER \<in> set u" by blast
      with t show ?thesis by simp
    qed
  qed
qed

lemma decode_ascii:
  "\<forall>b \<in> set bs. b < 0x80 \<Longrightarrow> bytes_decode_utf8 errors bs = Inr (map unat bs)"
  by (induction bs) simp_all

lemma decode_examples:
  "bytes_decode_utf8 Strict [0x63, 0x61, 0x66, 0xC3, 0xA9] = Inr [0x63, 0x61, 0x66, 0xE9]"
  "bytes_decode_utf8 Strict [0xE2, 0x82, 0xAC] = Inr [0x20AC]"
  "bytes_decode_utf8 Strict [0xF0, 0x9F, 0x98, 0x80] = Inr [0x1F600]"
  "bytes_decode_utf8 Strict [0xFF, 0x41] = Inl UnicodeDecodeError"
  "bytes_decode_utf8 Replace [0xFF, 0x41] = Inr [0xFFFD, 0x41]"
  "bytes_decode_utf8 Replace [0xE2, 0x82, 0x41] = Inr [0xFFFD, 0x41]"
  "bytes_decode_utf8 Replace [0xED, 0xA0, 0x80] = Inr [0xFFFD, 0xFFFD, 0xFFFD]"
  by (simp_all add: second_ok_def is_continuation_def payload_def REPLACEMENT_CHARACTER_def)

subsection \<open>Exception classes and the \<open>except\<close> clauses\<close>

lemma mro_up:
  "(OperationalError \<in> set (mro x) \<longrightarrow> DatabaseError \<in> set (mro x)) \<and>
   (ProgrammingError \<in> set (mro x) \<longrightarrow> DatabaseError \<in> set (mro x)) \<and>
   (IntegrityError \<in> set (mro x) \<longrightarrow> DatabaseError \<in> set (mro x)) \<and>
   (DatabaseError \<in> set (mro x) \<longrightarrow> SQLAlchemyError \<in> set (mro x)) \<and>
   Exception \<in> set (mro x)"
  by (induction x) simp_all

lemma mro_siblings:
  "\<not> (OperationalError \<in> set (mro x) \<and> ProgrammingError \<in> set (mro x)) \<and>
   \<not> (OperationalError \<in> set (mro x) \<and> IntegrityError \<in> set (mro x)) \<and>
   \<not> (ProgrammingError \<in> set (mro x) \<and> IntegrityError \<in> set (mro x))"
  by (induction x) simp_all

lemma isinstance_Exception: "isinstance e Exception"
  by (simp add: isinstance_def issubclass_def mro_up)

lemma handler_found: "\<exists>c h. first_handler handlers e = Some (c, h)"
  using isinstance_Exception [of e] by (simp add: handlers_def)

lemma handled_is_failure:
  assumes "first_handler handlers e = Some (c, h)"
  shows "\<exists>msg kind. h e t = failure msg kind t"
  using assms by (auto simp: handlers_def split: if_splits)

lemma failure_fields:
  "success (failure msg kind t) = False"
  "rows (failure msg kind t) = None"
  "row_count (failure msg kind t) = 0"
  "columns (failure msg kind t) = None"
  "error (failure msg kind t) = Some msg"
  "error_type (failure msg kind t) = Some kind"
  "execution_time_ms (failure msg kind t) = Some t"
  by (simp_all add: failure_def SQLQueryOutput_init_def)

lemma execute_query_sync_Inl:
  assumes "try_body d url q ps = (Inl e, evs)"
  shows "\<exists>c h. first_handler handlers e = Some (c, h) \<and>
           execute_query_sync d url q ps = (Inr (h e (elapsed_ms d)), evs)"
proof -
  obtain c h where "first_handler handlers e = Some (c, h)"
    using handler_found by blast
  with assms show ?thesis
    by (simp add: execute_query_sync_def)
qed

lemma execute_query_sync_Inr:
  assumes "try_body d url q ps = (Inr out, evs)"
  shows "execute_query_sync d url q ps = (Inr out, evs)"
  using assms by (simp add: execute_query_sync_def)

lemma first_handler_most_specific:
  assumes "first_handler handlers e = Some (c, h)"
    and "c' \<in> set (map fst handlers)" and "isinstance e c'"
  shows "issubclass c c'"
  using assms mro_up [of "exc_cls e"] mro_siblings [of "exc_cls e"]
  by (auto simp: handlers_def isinstance_def issubclass_def split: if_splits)

lemma first_handler_instance:
  assumes "first_handler hs e = Some (c, h)"
  shows "isinstance e c \<and> (c, h) \<in> set hs"
  using assms by (induction hs) (auto split: if_splits)

subsection \<open>Dicts and the conversion of rows\<close>

lemma dict_setitem_keys:
  "map fst (dict_setitem k v d) = (if k \<in> set (map fst d) then map fst d else map fst d @ [k])"
  by (induction d) auto

lemma dict_setitem_fresh: "k \<notin> set (map fst d) \<Longrightarrow> dict_setitem k v d = d @ [(k, v)]"
  by (induction d) auto

lemma dict_setitem_set: "set (dict_setitem k v d) \<subseteq> insert (k, v) (set d)"
  by (induction d) auto

lemma remdups_drop_seen: "c \<in> set ys \<Longrightarrow> remdups (xs @ c # ys) = remdups (xs @ ys)"
  by (induction xs) auto

lemma first_occurrences_snoc:
  "rev (remdups (rev (ks @ c # cs))) =
   rev (remdups (rev ((if c \<in> set ks then ks else ks @ [c]) @ cs)))"
  by (simp add: remdups_drop_seen)

lemma row_as_dict_keys:
  assumes "row_as_dict cols i row acc = Inr d" and "distinct (map fst acc)"
  shows "map fst d = rev (remdups (rev (map fst acc @ cols)))"
  using assms
proof (induction cols arbitrary: i acc)
  case Nil
  then show ?case by (simp add: distinct_remdups_id)
next
  case (Cons col cols)
  from Cons.prems(1) obtain cell v where
    v: "serialize_value cell = Inr v" and
    r: "row_as_dict cols (Suc i) row (dict_setitem col v acc) = Inr d"
    by (auto split: sum.splits)
  have dk: "distinct (map fst (dict_setitem col v acc))"
    using Cons.prems(2) by (simp add: dict_setitem_keys)
  have "map fst d = rev (remdups (rev (map fst (dict_setitem col v acc) @ cols)))"
    using Cons.IH [OF r dk] .
  also have "\<dots> = rev (remdups (rev (map fst acc @ col # cols)))"
    unfolding dict_setitem_keys first_occurrences_snoc [of "map fst acc" col cols] ..
  finally show ?case .
qed

lemma row_as_dict_distinct:
  assumes "row_as_dict cols i row acc = Inr d" and "distinct cols"
    and "set cols \<inter> set (map fst acc) = {}"
  shows "\<exists>vs. d = acc @ zip cols vs \<and> length vs = length cols \<and>
           (\<forall>j<length cols. i + j < length row \<and>
              serialize_value (row ! (i + j)) = Inr (vs ! j))"
  using assms
proof (induction cols arbitrary: i acc)
  case Nil
  then show ?case by simp
next
  case (Cons col cols)
  from Cons.prems(1) obtain v where
    i: "i < length row" and
    v: "serialize_value (row ! i) = Inr v" and
    r: "row_as_dict cols (Suc i) row (dict_setitem col v acc) = Inr d"
    by (auto simp: row_getitem_def split: sum.splits if_splits)
  have fresh: "dict_setitem col v acc = acc @ [(col, v)]"
    using Cons.prems(3) by (simp add: dict_setitem_fresh)
  have "set cols \<inter> set (map fst (dict_setitem col v acc)) = {}"
    using Cons.prems(2,3) by (auto simp: fresh)
  with Cons.IH [OF r] Cons.prems(2) obtain vs where
    vs: "d = dict_setitem col v acc @ zip cols vs" "length vs = length cols"
      "\<forall>j<length cols. Suc i + j < length row \<and>
         serialize_value (row ! (Suc i + j)) = Inr (vs ! j)"
    by auto
  have "\<forall>j<length (col # cols). i + j < length row \<and>
          serialize_value (row ! (i + j)) = Inr ((v # vs) ! j)"
  proof (intro allI impI)
    fix j assume "j < length (col # cols)"
    then show "i + j < length row \<and> serialize_value (row ! (i + j)) = Inr ((v # vs) ! j)"
      using i v vs(3) by (cases j) auto
  qed
  with vs fresh show ?case
    by (intro exI [of _ "v # vs"]) auto
qed

lemma row_as_dict_values:
  assumes "row_as_dict cols i row acc = Inr d" and "(k, v) \<in> set d"
  shows "(k, v) \<in> set acc \<or>
         (\<exists>j<length cols. cols ! j = k \<and> i + j < length row \<and>
            serialize_value (row ! (i + j)) = Inr v)"
  using assms
proof (induction cols arbitrary: i acc)
  case Nil
  then show ?case by simp
next
  case (Cons col cols)
  from Cons.prems(1) obtain w where
    i: "i < length row" and
    w: "serialize_value (row ! i) = Inr w" and
    r: "row_as_dict cols (Suc i) row (dict_setitem col w acc) = Inr d"
    by (auto simp: row_getitem_def split: sum.splits if_splits)
  from Cons.IH [OF r Cons.prems(2)] consider
    (old) "(k, v) \<in> set (dict_setitem col w acc)" |
    (new) j where "j < length cols" "cols ! j = k" "Suc i + j < length row"
      "serialize_value (row ! (Suc i + j)) = Inr v"
    by blast
  then show ?case
  proof cases
    case old
    then have "(k, v) = (col, w) \<or> (k, v) \<in> set acc"
      using dict_setitem_set [of col w acc] by auto
    then show ?thesis
    proof
      assume "(k, v) = (col, w)"
      then have "0 < length (col # cols) \<and> (col # cols) ! 0 = k \<and> i + 0 < length row \<and>
        serialize_value (row ! (i + 0)) = Inr v"
        using i w by simp
      then show ?thesis by blast
    qed simp
  next
    case new
    then have "Suc j < length (col # cols) \<and> (col # cols) ! Suc j = k \<and>
      i + Suc j < length row \<and> serialize_value (row ! (i + Suc j)) = Inr v"
      by simp
    then show ?thesis by blast
  qed
qed

lemma rows_as_dicts_length:
  "rows_as_dicts cols fetched = Inr ds \<Longrightarrow> length ds = length fetched"
  by (induction fetched arbitrary: ds) (auto split: sum.splits)

lemma rows_as_dicts_nth:
  "rows_as_dicts cols fetched = Inr ds \<Longrightarrow> i < length fetched \<Longrightarrow>
   row_as_dict cols 0 (fetched ! i) [] = Inr (ds ! i)"
proof (induction fetched arbitrary: ds i)
  case Nil
  then show ?case by simp
next
  case (Cons row others)
  then show ?case
    by (cases i) (auto split: sum.splits)
qed

subsection \<open>The outcomes of the \<open>try\<close> block\<close>

lemma try_body_Inr:
  assumes "try_body d url q ps = (Inr out, evs)"
  shows "\<exists>result hevs.
           create_engine d url (connect_args url) = None \<and>
           connect d url (connect_args url) = None \<and> close d = None \<and>
           execute d q (bound_params ps) = Inr result \<and>
           handle_result d result = (Inr out, hevs) \<and>
           evs = CreateEngine url (connect_args url) # Connect
                   # Execute q (bound_params ps) # hevs @ [Close]"
  using assms
  by (auto simp: try_body_def in_connection_def split: option.splits sum.splits prod.splits)

lemma handle_result_rows:
  assumes "handle_result d result = (Inr out, hevs)" and "returns_rows result"
  shows "\<exists>fetched cols ds.
           fetchall result = Inr fetched \<and> keys result = Inr cols \<and>
           rows_as_dicts cols fetched = Inr ds \<and> hevs = [Fetchall] \<and>
           out = (SQLQueryOutput_init True)
                   \<lparr>rows := Some ds, row_count := int (length ds), columns := Some cols,
                    execution_time_ms := Some (elapsed_ms d)\<rparr>"
  using assms by (auto simp: handle_result_def split: sum.splits)

lemma handle_result_affecting:
  assumes "handle_result d result = (Inr out, hevs)" and "\<not> returns_rows result"
  shows "\<exists>n. commit d = None \<and> rowcount result = Inr n \<and> hevs = [Commit] \<and>
           out = (SQLQueryOutput_init True)
                   \<lparr>rows := None, row_count := (if n \<ge> 0 then n else 0), columns := None,
                    execution_time_ms := Some (elapsed_ms d)\<rparr>"
  using assms by (auto simp: handle_result_def split: sum.splits option.splits)

lemma handle_result_success:
  assumes "handle_result d result = (Inr out, hevs)"
  shows "success out \<and> error out = None \<and> error_type out = None \<and>
         (rows out = None) = (columns out = None) \<and>
         (rows out = None) = (\<not> returns_rows result)"
proof (cases "returns_rows result")
  case True
  from handle_result_rows [OF assms True] show ?thesis
    using True by (auto simp: SQLQueryOutput_init_def)
next
  case False
  from handle_result_affecting [OF assms False] show ?thesis
    using False by (auto simp: SQLQueryOutput_init_def)
qed

lemma execute_query_sync_success:
  assumes "execute_query_sync d url q ps = (Inr out, evs)" and "success out"
  shows "try_body d url q ps = (Inr out, evs)"
proof (cases "try_body d url q ps")
  case (Pair r evs')
  show ?thesis
  proof (cases r)
    case (Inl e)
    with Pair obtain c h where h: "first_handler handlers e = Some (c, h)"
      and x: "execute_query_sync d url q ps = (Inr (h e (elapsed_ms d)), evs')"
      using execute_query_sync_Inl by blast
    from handled_is_failure [OF h] obtain msg kind
      where "h e (elapsed_ms d) = failure msg kind (elapsed_ms d)" by blast
    with x assms show ?thesis by (simp add: failure_fields)
  next
    case (Inr out')
    with Pair assms show ?thesis by (simp add: execute_query_sync_def)
  qed
qed

subsection \<open>Never raising\<close>

text \<open>
  C1. For every access layer, connection target, statement and parameters, the executor
  returns a result record and lets no exception through to its caller; when connecting,
  executing or building the result raised, the record has \<open>success = False\<close> and carries
  an error message and an error type.
\<close>

theorem execute_never_raises:
  "\<exists>out. fst (execute_query_sync d url q ps) = Inr out \<and>
     (\<forall>e. fst (try_body d url q ps) = Inl e \<longrightarrow>
        \<not> success out \<and> error out \<noteq> None \<and> error_type out \<noteq> None)"
proof (cases "try_body d url q ps")
  case (Pair r evs)
  show ?thesis
  proof (cases r)
    case (Inl e)
    with Pair obtain c h where h: "first_handler handlers e = Some (c, h)"
      and x: "execute_query_sync d url q ps = (Inr (h e (elapsed_ms d)), evs)"
      using execute_query_sync_Inl by blast
    from handled_is_failure [OF h] obtain msg kind
      where "h e (elapsed_ms d) = failure msg kind (elapsed_ms d)" by blast
    with x Pair Inl show ?thesis by (simp add: failure_fields)
  next
    case (Inr out)
    with Pair show ?thesis by (simp add: execute_query_sync_def)
  qed
qed

lemma try_body_unreachable:
  "try_body unreachable postgres_url q ps =
     (Inl connection_refused, [CreateEngine postgres_url (connect_args postgres_url), Connect])"
  by (simp add: try_body_def unreachable_def answering_def)

theorem execute_never_raises_witness:
  "fst (try_body unreachable postgres_url (lit ''SELECT 1'') None) = Inl connection_refused \<and>
   (\<exists>out. fst (execute_query_sync unreachable postgres_url (lit ''SELECT 1'') None) = Inr out \<and>
      \<not> success out \<and> error out \<noteq> None \<and> error_type out \<noteq> None)"
  using execute_never_raises [of unreachable postgres_url "lit ''SELECT 1''" None]
  by (simp add: try_body_unreachable)

subsection \<open>The serializer\<close>

text \<open>
  The serializer returns a value for every cell and never raises. \<open>None\<close> gives \<open>None\<close>; a
  \<open>str\<close>, \<open>int\<close>, \<open>float\<close> or \<open>bool\<close> is returned unchanged; \<open>bytes\<close> are decoded as UTF-8
  with \<open>errors="replace"\<close>, which is the strict decoding where that succeeds and contains
  U+FFFD where it does not; a \<open>memoryview\<close> gives its \<open>str(value)\<close>; an object with
  \<open>isoformat\<close> gives that text, whether or not it also has \<open>__dict__\<close>; any other object
  gives \<open>str(value)\<close>.
\<close>

lemma serialize_value_cases:
  "serialize_value PyNone = Inr PyNone \<and>
   serialize_value (PyStr s) = Inr (PyStr s) \<and>
   serialize_value (PyInt i) = Inr (PyInt i) \<and>
   serialize_value (PyFloat f) = Inr (PyFloat f) \<and>
   serialize_value (PyBool b) = Inr (PyBool b) \<and>
   (\<exists>t. bytes_decode_utf8 Replace bs = Inr t \<and>
        serialize_value (PyBytes bs) = Inr (PyStr t) \<and>
        (case bytes_decode_utf8 Strict bs of
           Inr u \<Rightarrow> t = u
         | Inl e \<Rightarrow> REPLACEMENT_CHARACTER \<in> set t)) \<and>
   serialize_value (PyMemoryview viewed shown) = Inr (PyStr shown) \<and>
   serialize_value (PyObject (Object (Some iso_text) has_dict str_text)) = Inr (PyStr iso_text) \<and>
   serialize_value (PyObject (Object None has_dict str_text)) = Inr (PyStr str_text) \<and>
   (\<exists>j. serialize_value v = Inr j)"
proof -
  obtain t where t: "bytes_decode_utf8 Replace bs = Inr t"
    using decode_replace_total by blast
  have "case bytes_decode_utf8 Strict bs of Inr u \<Rightarrow> t = u
        | Inl e \<Rightarrow> REPLACEMENT_CHARACTER \<in> set t"
    using t decode_strict_replace [of bs] decode_replace_marks [of bs]
    by (cases "bytes_decode_utf8 Strict bs") auto
  with t have bytes: "\<exists>t. bytes_decode_utf8 Replace bs = Inr t \<and>
        serialize_value (PyBytes bs) = Inr (PyStr t) \<and>
        (case bytes_decode_utf8 Strict bs of
           Inr u \<Rightarrow> t = u
         | Inl e \<Rightarrow> REPLACEMENT_CHARACTER \<in> set t)"
    by simp
  have total: "\<exists>j. serialize_value v = Inr j"
  proof (cases v)
    case (PyBytes cs)
    obtain u where "bytes_decode_utf8 Replace cs = Inr u"
      using decode_replace_total by blast
    with PyBytes show ?thesis by simp
  next
    case (PyObject ob)
    then show ?thesis by (cases "obj_isoformat ob") simp_all
  qed simp_all
  from bytes total show ?thesis by simp
qed

text \<open>
  C2. A byte sequence is to be decoded as UTF-8, and the serializer does so for \<open>bytes\<close>. A
  \<open>memoryview\<close> over the same bytes misses the test \<open>isinstance(value, bytes)\<close> and every
  later one, and comes out as its \<open>str(value)\<close>, the text \<open><memory at 0x...>\<close>, not as the
  text \<open>abc\<close> that it holds.
\<close>

theorem memoryview_cell_not_decoded:
  "bytea_cell = PyMemoryview [0x61, 0x62, 0x63] (lit ''<memory at 0x7f9c2a1b3d00>'') \<and>
   serialize_value bytea_cell = Inr (PyStr (lit ''<memory at 0x7f9c2a1b3d00>'')) \<and>
   serialize_value (PyBytes [0x61, 0x62, 0x63]) = Inr (PyStr (lit ''abc'')) \<and>
   lit ''<memory at 0x7f9c2a1b3d00>'' \<noteq> lit ''abc''"
  by (simp add: bytea_cell_def lit_def)

text \<open>
  C10. The serializer is idempotent: what it returns for a cell, it returns again when
  given its own result.
\<close>

theorem serialize_value_idempotent:
  "\<exists>j. serialize_value v = Inr j \<and> serialize_value j = Inr j"
proof (cases v)
  case (PyBytes cs)
  obtain u where "bytes_decode_utf8 Replace cs = Inr u"
    using decode_replace_total by blast
  with PyBytes show ?thesis by simp
next
  case (PyObject ob)
  then show ?thesis by (cases "obj_isoformat ob") simp_all
qed simp_all

subsection \<open>The invariant of the result\<close>

text \<open>
  C3. Every result the executor returns has exactly one of: rows present, an error type
  present, neither of the two. An error message or an error type is present only in a
  result with \<open>success = False\<close>, and such a result has \<open>row_count = 0\<close> and neither rows
  nor columns.
\<close>

theorem query_result_invariant:
  "\<exists>out. fst (execute_query_sync d url q ps) = Inr out \<and>
     exactly_one [rows out \<noteq> None, error_type out \<noteq> None,
                  rows out = None \<and> error_type out = None] \<and>
     (error out \<noteq> None \<longrightarrow> \<not> success out) \<and>
     (error_type out \<noteq> None \<longrightarrow> \<not> success out) \<and>
     (\<not> success out \<longrightarrow> row_count out = 0 \<and> rows out = None \<and> columns out = None)"
proof (cases "try_body d url q ps")
  case (Pair r evs)
  show ?thesis
  proof (cases r)
    case (Inl e)
    with Pair obtain c h where h: "first_handler handlers e = Some (c, h)"
      and x: "execute_query_sync d url q ps = (Inr (h e (elapsed_ms d)), evs)"
      using execute_query_sync_Inl by blast
    from handled_is_failure [OF h] obtain msg kind
      where "h e (elapsed_ms d) = failure msg kind (elapsed_ms d)" by blast
    with x show ?thesis by (simp add: failure_fields exactly_one_def)
  next
    case (Inr out)
    with Pair have t: "try_body d url q ps = (Inr out, evs)" by simp
    from try_body_Inr [OF t] obtain result hevs
      where "handle_result d result = (Inr out, hevs)" by blast
    from handle_result_success [OF this] execute_query_sync_Inr [OF t]
    show ?thesis by (auto simp: exactly_one_def)
  qed
qed

lemma try_body_violating_insert:
  "try_body violating_insert url q ps =
     (Inl unique_violation,
      [CreateEngine url (connect_args url), Connect, Execute q (bound_params ps), Close])"
  by (simp add: try_body_def in_connection_def violating_insert_def answering_def)

lemma classify_unique_violation:
  "first_handler handlers unique_violation =
     Some (IntegrityError,
       \<lambda>e. failure (lit ''Constraint violation: '' @ orig_or_str e) (lit ''integrity_error''))"
  by (simp add: handlers_def unique_violation_def isinstance_def issubclass_def)

lemma execute_violating_insert:
  "fst (execute_query_sync violating_insert url q ps) =
     Inr (failure (lit ''Constraint violation: '' @ lit ''UNIQUE constraint failed: t.id'')
           (lit ''integrity_error'') 0)"
  by (simp add: execute_query_sync_def try_body_violating_insert classify_unique_violation)
     (simp add: orig_or_str_def unique_violation_def violating_insert_def answering_def)

theorem query_result_invariant_witness:
  "\<exists>out. fst (execute_query_sync violating_insert select_one_url
                 (lit ''INSERT INTO t(id) VALUES (1)'') None) = Inr out \<and>
     error out \<noteq> None \<and> error_type out \<noteq> None \<and> \<not> success out \<and>
     row_count out = 0 \<and> rows out = None \<and> columns out = None"
  using query_result_invariant
    [of violating_insert select_one_url "lit ''INSERT INTO t(id) VALUES (1)''" None]
  by (simp add: execute_violating_insert failure_fields)

subsection \<open>Classification of errors\<close>

text \<open>
  C4. When the \<open>try\<close> block raises, the clause that classifies the exception is the
  narrowest one that applies: its class is a subclass of every clause class the
  exception is an instance of. In particular an \<open>IntegrityError\<close>, which is also a
  \<open>DatabaseError\<close>, is reported as \<open>integrity_error\<close> and not as \<open>database_error\<close>.
\<close>

theorem narrowest_clause_classifies:
  assumes "fst (try_body d url q ps) = Inl e"
  shows "\<exists>c h out. first_handler handlers e = Some (c, h) \<and>
           fst (execute_query_sync d url q ps) = Inr out \<and> out = h e (elapsed_ms d) \<and>
           isinstance e c \<and>
           (\<forall>c'. c' \<in> set (map fst handlers) \<and> isinstance e c' \<longrightarrow> issubclass c c') \<and>
           (isinstance e IntegrityError \<longrightarrow>
              isinstance e DatabaseError \<and> c = IntegrityError \<and>
              error_type out = Some (lit ''integrity_error''))"
proof -
  obtain evs where t: "try_body d url q ps = (Inl e, evs)"
    using assms by (cases "try_body d url q ps") simp
  from execute_query_sync_Inl [OF t] obtain c h where
    h: "first_handler handlers e = Some (c, h)" and
    x: "execute_query_sync d url q ps = (Inr (h e (elapsed_ms d)), evs)"
    by blast
  have inst: "isinstance e c"
    using first_handler_instance [OF h] by simp
  have narrow: "\<forall>c'. c' \<in> set (map fst handlers) \<and> isinstance e c' \<longrightarrow> issubclass c c'"
    using first_handler_most_specific [OF h] by blast
  have integ: "isinstance e IntegrityError \<longrightarrow>
      isinstance e DatabaseError \<and> c = IntegrityError \<and>
      error_type (h e (elapsed_ms d)) = Some (lit ''integrity_error'')"
    using h mro_up [of "exc_cls e"] mro_siblings [of "exc_cls e"]
    by (auto simp: handlers_def isinstance_def issubclass_def failure_fields split: if_splits)
  from h x inst narrow integ show ?thesis by simp
qed

theorem narrowest_clause_classifies_witness:
  "fst (try_body violating_insert select_one_url (lit ''INSERT INTO t(id) VALUES (1)'') None)
     = Inl unique_violation \<and>
   isinstance unique_violation IntegrityError \<and>
   isinstance unique_violation DatabaseError \<and>
   (\<exists>out. fst (execute_query_sync violating_insert select_one_url
                  (lit ''INSERT INTO t(id) VALUES (1)'') None) = Inr out \<and>
      error_type out = Some (lit ''integrity_error''))"
proof -
  have b: "fst (try_body violating_insert select_one_url
                  (lit ''INSERT INTO t(id) VALUES (1)'') None) = Inl unique_violation"
    by (simp add: try_body_violating_insert)
  have i: "isinstance unique_violation IntegrityError"
    by (simp add: unique_violation_def isinstance_def issubclass_def)
  from narrowest_clause_classifies [OF b] i show ?thesis
    using b by auto
qed

text \<open>
  C8. When the \<open>try\<close> block raises an \<open>OperationalError\<close>, the result has the error type
  \<open>connection_error\<close>, and its message is \<open>Connection error: \<close> followed by the driver's
  own message (\<open>str(e.orig)\<close>) when the exception has a true \<open>orig\<close>, and by \<open>str(e)\<close>
  otherwise.
\<close>

theorem operational_error_is_connection_error:
  assumes "fst (try_body d url q ps) = Inl e" and "isinstance e OperationalError"
  shows "\<exists>out. fst (execute_query_sync d url q ps) = Inr out \<and> \<not> success out \<and>
           error_type out = Some (lit ''connection_error'') \<and>
           error out = Some (lit ''Connection error: '' @
             (case exc_orig e of
                Some og \<Rightarrow> if orig_truthy og then orig_str og else exc_str e
              | None \<Rightarrow> exc_str e))"
proof -
  obtain evs where t: "try_body d url q ps = (Inl e, evs)"
    using assms(1) by (cases "try_body d url q ps") simp
  have "first_handler handlers e =
      Some (OperationalError,
        \<lambda>e. failure (lit ''Connection error: '' @ orig_or_str e) (lit ''connection_error''))"
    using assms(2) by (simp add: handlers_def)
  with t show ?thesis
    by (simp add: execute_query_sync_def failure_fields orig_or_str_def)
qed

theorem operational_error_is_connection_error_witness:
  "fst (try_body unreachable postgres_url (lit ''SELECT 1'') None) = Inl connection_refused \<and>
   isinstance connection_refused OperationalError \<and>
   (\<exists>out. fst (execute_query_sync unreachable postgres_url (lit ''SELECT 1'') None) = Inr out \<and>
      \<not> success out \<and> error_type out = Some (lit ''connection_error'') \<and>
      error out = Some (lit ''Connection error: '' @ lit ''connection refused''))"
proof -
  have b: "fst (try_body unreachable postgres_url (lit ''SELECT 1'') None)
             = Inl connection_refused"
    by (simp add: try_body_unreachable)
  have i: "isinstance connection_refused OperationalError"
    by (simp add: connection_refused_def isinstance_def issubclass_def)
  from operational_error_is_connection_error [OF b i] show ?thesis
    using b i by (simp add: connection_refused_def)
qed

subsection \<open>Parameters\<close>

lemma bound_params_empty: "bound_params (Some []) = bound_params None"
  by (simp add: bound_params_def)

lemma bound_params_eq:
  "bound_params ps = (if ps = None \<or> ps = Some [] then None else ps)"
  by (auto simp: bound_params_def split: option.splits)

lemma in_connection_bound:
  "bound_params ps = bound_params ps' \<Longrightarrow> in_connection d q ps = in_connection d q ps'"
  by (simp add: in_connection_def split: sum.splits)

lemma try_body_bound:
  "bound_params ps = bound_params ps' \<Longrightarrow> try_body d url q ps = try_body d url q ps'"
  using in_connection_bound [of ps ps' d q] by (simp add: try_body_def split: option.splits)

lemma handle_result_events: "Execute q' b \<notin> set (snd (handle_result d result))"
  by (auto simp: handle_result_def split: sum.splits option.splits)

lemma try_body_executes:
  assumes "Execute q' b \<in> set (snd (try_body d url q ps))"
  shows "q' = q \<and> b = bound_params ps"
proof (cases "execute d q (bound_params ps)")
  case (Inl e)
  with assms show ?thesis
    by (auto simp: try_body_def in_connection_def split: option.splits)
next
  case (Inr result)
  obtain r hevs where h: "handle_result d result = (r, hevs)"
    by (cases "handle_result d result")
  have "Execute q' b \<notin> set hevs"
    using handle_result_events [of q' b d result] h by simp
  with assms Inr h show ?thesis
    by (auto simp: try_body_def in_connection_def split: option.splits)
qed

lemma execute_query_sync_events:
  "snd (execute_query_sync d url q ps) = snd (try_body d url q ps)"
  by (auto simp: execute_query_sync_def split: prod.splits sum.splits option.splits)

text \<open>
  C9. A call with an empty parameter dict is the same as a call without parameters, in
  its result and in the calls it makes. Whenever the executor runs a statement, it is the
  given statement; it is run without parameters when these are absent or empty, and with
  the given parameters only when they are a non-empty dict.
\<close>

theorem empty_params_like_absent:
  "execute_query_sync d url q (Some []) = execute_query_sync d url q None \<and>
   (\<forall>q' b. Execute q' b \<in> set (snd (execute_query_sync d url q ps)) \<longrightarrow>
      q' = q \<and> b = (if ps = None \<or> ps = Some [] then None else ps))"
proof -
  have "try_body d url q (Some []) = try_body d url q None"
    by (rule try_body_bound) (rule bound_params_empty)
  then have same: "execute_query_sync d url q (Some []) = execute_query_sync d url q None"
    by (simp add: execute_query_sync_def)
  have "\<forall>q' b. Execute q' b \<in> set (snd (execute_query_sync d url q ps)) \<longrightarrow>
      q' = q \<and> b = (if ps = None \<or> ps = Some [] then None else ps)"
    using try_body_executes [of _ _ d url q ps]
    by (simp add: execute_query_sync_events bound_params_eq)
  with same show ?thesis by simp
qed

lemma try_body_insert_row:
  "try_body insert_row url q ps =
     (Inr ((SQLQueryOutput_init True)
             \<lparr>rows := None, row_count := 1, columns := None, execution_time_ms := Some 0\<rparr>),
      [CreateEngine url (connect_args url), Connect, Execute q (bound_params ps), Commit, Close])"
  by (simp add: try_body_def in_connection_def handle_result_def insert_row_def answering_def)

theorem empty_params_like_absent_witness:
  "Execute (lit ''INSERT INTO t(id) VALUES (:id)'') (Some [(lit ''id'', PyInt 5)])
     \<in> set (snd (execute_query_sync insert_row select_one_url
                    (lit ''INSERT INTO t(id) VALUES (:id)'') (Some [(lit ''id'', PyInt 5)]))) \<and>
   Execute (lit ''INSERT INTO t(id) VALUES (5)'') None
     \<in> set (snd (execute_query_sync insert_row select_one_url
                    (lit ''INSERT INTO t(id) VALUES (5)'') (Some []))) \<and>
   execute_query_sync insert_row select_one_url (lit ''INSERT INTO t(id) VALUES (5)'') (Some [])
     = execute_query_sync insert_row select_one_url (lit ''INSERT INTO t(id) VALUES (5)'') None"
  using empty_params_like_absent [of insert_row select_one_url
      "lit ''INSERT INTO t(id) VALUES (5)''" "Some []"]
  by (simp add: execute_query_sync_events try_body_insert_row bound_params_def)

subsection \<open>Statements without a row set\<close>

text \<open>
  C5. When a statement without a row set succeeds, the executor has committed (the call to
  \<open>commit\<close> follows the statement and did not raise), the result has neither rows nor
  columns, and its \<open>row_count\<close> is the count the driver reports, or 0 when that count is
  negative; so it is never negative.
\<close>

theorem affecting_statement_commits_and_clamps:
  assumes "execute_query_sync d url q ps = (Inr out, evs)" and "success out"
    and "execute d q (bound_params ps) = Inr result" and "\<not> returns_rows result"
  shows "\<exists>n. rowcount result = Inr n \<and> row_count out = max 0 n \<and> 0 \<le> row_count out \<and>
           rows out = None \<and> columns out = None \<and> commit d = None \<and>
           evs = [CreateEngine url (connect_args url), Connect,
                  Execute q (bound_params ps), Commit, Close]"
proof -
  have t: "try_body d url q ps = (Inr out, evs)"
    using assms(1,2) by (rule execute_query_sync_success)
  from try_body_Inr [OF t] assms(3) obtain hevs where
    h: "handle_result d result = (Inr out, hevs)" and
    evs: "evs = CreateEngine url (connect_args url) # Connect
                  # Execute q (bound_params ps) # hevs @ [Close]"
    by auto
  from handle_result_affecting [OF h assms(4)] obtain n where
    "commit d = None" "rowcount result = Inr n" "hevs = [Commit]"
    "out = (SQLQueryOutput_init True)
             \<lparr>rows := None, row_count := (if n \<ge> 0 then n else 0), columns := None,
              execution_time_ms := Some (elapsed_ms d)\<rparr>"
    by blast
  with evs show ?thesis by (auto simp: max_def)
qed

lemma try_body_create_table:
  "try_body create_table url q ps =
     (Inr create_table_output,
      [CreateEngine url (connect_args url), Connect, Execute q (bound_params ps), Commit, Close])"
  by (simp add: try_body_def in_connection_def handle_result_def create_table_def
      create_table_result_def create_table_output_def answering_def SQLQueryOutput_init_def)

theorem affecting_statement_commits_and_clamps_witness:
  "execute_query_sync create_table select_one_url (lit ''CREATE TABLE t(id INTEGER)'') None =
     (Inr create_table_output,
      [CreateEngine select_one_url (connect_args select_one_url), Connect,
       Execute (lit ''CREATE TABLE t(id INTEGER)'') (bound_params None), Commit, Close]) \<and>
   success create_table_output \<and>
   execute create_table (lit ''CREATE TABLE t(id INTEGER)'') (bound_params None)
     = Inr create_table_result \<and>
   \<not> returns_rows create_table_result \<and>
   rowcount create_table_result = Inr (- 1) \<and>
   row_count create_table_output = 0 \<and>
   rows create_table_output = None \<and> columns create_table_output = None \<and>
   commit create_table = None"
proof -
  have x: "execute_query_sync create_table select_one_url
             (lit ''CREATE TABLE t(id INTEGER)'') None =
     (Inr create_table_output,
      [CreateEngine select_one_url (connect_args select_one_url), Connect,
       Execute (lit ''CREATE TABLE t(id INTEGER)'') (bound_params None), Commit, Close])"
    by (simp add: execute_query_sync_def try_body_create_table)
  have s: "success create_table_output"
    by (simp add: create_table_output_def)
  have e: "execute create_table (lit ''CREATE TABLE t(id INTEGER)'') (bound_params None)
             = Inr create_table_result"
    by (simp add: create_table_def answering_def)
  have r: "\<not> returns_rows create_table_result"
    by (simp add: create_table_result_def)
  from affecting_statement_commits_and_clamps [OF x s e r] x s e r show ?thesis
    by (auto simp: create_table_result_def)
qed

subsection \<open>The connect timeout\<close>



lemma connect_args_postgres_url_naming_sqlite: "connect_args postgres_url_naming_sqlite = []"
  by (simp add: connect_args_def postgres_url_naming_sqlite_def lit_def)

lemma connect_args_postgres_url: "connect_args postgres_url = [(lit ''connect_timeout'', 10)]"
  by (simp add: connect_args_def postgres_url_def lit_def)

lemma connect_args_select_one_url: "connect_args select_one_url = []"
  by (simp add: connect_args_def select_one_url_def lit_def)


lemma try_body_select_one:
  "try_body select_one url q ps =
     (Inr select_one_output,
      [CreateEngine url (connect_args url), Connect, Execute q (bound_params ps), Fetchall, Close])"
  by (simp add: try_body_def in_connection_def handle_result_def select_one_def
      select_one_result_def select_one_output_def answering_def row_getitem_def
      SQLQueryOutput_init_def)


lemma connect_timeout_lookup:
  "map_of [(lit ''connect_timeout'', 10::int)] (lit ''connect_timeout'') = Some 10"
  by simp






text \<open>
  The test reads the whole URL and not its dialect, so it also meets the text inside the
  URL of another dialect, here in the name of a PostgreSQL database.
\<close>

lemma sqlite_inside_postgres_url:
  "prefix (lit ''postgresql://'') postgres_url_naming_sqlite \<and>
   connect_args postgres_url_naming_sqlite = []"
  by (simp add: connect_args_postgres_url_naming_sqlite)
     (simp add: postgres_url_naming_sqlite_def lit_def)

subsection \<open>Statements with a row set\<close>

lemma row_as_dict_keys_all:
  assumes "row_as_dict cols 0 row [] = Inr d"
  shows "map fst d = rev (remdups (rev cols))"
  using row_as_dict_keys [OF assms] by simp

lemma row_as_dict_cells:
  assumes "row_as_dict cols 0 row [] = Inr d" and "(k, v) \<in> set d"
  shows "\<exists>j<length cols. cols ! j = k \<and> j < length row \<and> serialize_value (row ! j) = Inr v"
  using row_as_dict_values [OF assms] by simp

lemma row_as_dict_distinct_all:
  assumes "row_as_dict cols 0 row [] = Inr d" and "distinct cols"
  shows "map fst d = cols \<and>
         (\<forall>j<length cols. j < length row \<and> serialize_value (row ! j) = Inr (snd (d ! j)))"
proof -
  from row_as_dict_distinct [OF assms] obtain vs where
    d: "d = zip cols vs" and l: "length vs = length cols" and
    c: "\<forall>j<length cols. j < length row \<and> serialize_value (row ! j) = Inr (vs ! j)"
    by auto
  from d l have "map fst d = cols" by simp
  moreover from d l c have
    "\<forall>j<length cols. j < length row \<and> serialize_value (row ! j) = Inr (snd (d ! j))"
    by simp
  ultimately show ?thesis by simp
qed

text \<open>
  C6, as the code has it. When a statement with a row set succeeds, the result has the
  column names as the driver lists them, one dict for each fetched row, \<open>row_count\<close>
  equal to the number of fetched rows, and no error message or error type. The keys of
  each dict are the column names in their order, a repeated name standing at its first
  place only, and every value is the serialized cell of a column of that name. When the
  column names are distinct, the keys are the column list itself and the value at
  position \<open>j\<close> is the serialized cell \<open>j\<close> of the row.
\<close>

theorem row_returning_result:
  assumes "execute_query_sync d url q ps = (Inr out, evs)" and "success out"
    and "execute d q (bound_params ps) = Inr result" and "returns_rows result"
  shows "\<exists>fetched cols ds.
           fetchall result = Inr fetched \<and> keys result = Inr cols \<and>
           rows out = Some ds \<and> columns out = Some cols \<and>
           row_count out = int (length fetched) \<and> length ds = length fetched \<and>
           error out = None \<and> error_type out = None \<and>
           (\<forall>i<length ds.
              map fst (ds ! i) = rev (remdups (rev cols)) \<and>
              (\<forall>(k, v) \<in> set (ds ! i).
                 \<exists>j<length cols. cols ! j = k \<and> j < length (fetched ! i) \<and>
                   serialize_value (fetched ! i ! j) = Inr v) \<and>
              (distinct cols \<longrightarrow>
                 map fst (ds ! i) = cols \<and>
                 (\<forall>j<length cols. j < length (fetched ! i) \<and>
                    serialize_value (fetched ! i ! j) = Inr (snd (ds ! i ! j)))))"
proof -
  have t: "try_body d url q ps = (Inr out, evs)"
    using assms(1,2) by (rule execute_query_sync_success)
  from try_body_Inr [OF t] assms(3) obtain hevs where
    h: "handle_result d result = (Inr out, hevs)"
    by auto
  from handle_result_rows [OF h assms(4)] obtain fetched cols ds where
    f: "fetchall result = Inr fetched" and k: "keys result = Inr cols" and
    c: "rows_as_dicts cols fetched = Inr ds" and
    out: "out = (SQLQueryOutput_init True)
                  \<lparr>rows := Some ds, row_count := int (length ds), columns := Some cols,
                   execution_time_ms := Some (elapsed_ms d)\<rparr>"
    by blast
  have len: "length ds = length fetched"
    using c by (rule rows_as_dicts_length)
  have each: "\<forall>i<length ds.
      map fst (ds ! i) = rev (remdups (rev cols)) \<and>
      (\<forall>(k, v) \<in> set (ds ! i).
         \<exists>j<length cols. cols ! j = k \<and> j < length (fetched ! i) \<and>
           serialize_value (fetched ! i ! j) = Inr v) \<and>
      (distinct cols \<longrightarrow>
         map fst (ds ! i) = cols \<and>
         (\<forall>j<length cols. j < length (fetched ! i) \<and>
            serialize_value (fetched ! i ! j) = Inr (snd (ds ! i ! j))))"
  proof (intro allI impI)
    fix i assume "i < length ds"
    with len have "i < length fetched" by simp
    with c have r: "row_as_dict cols 0 (fetched ! i) [] = Inr (ds ! i)"
      by (rule rows_as_dicts_nth)
    show "map fst (ds ! i) = rev (remdups (rev cols)) \<and>
      (\<forall>(k, v) \<in> set (ds ! i).
         \<exists>j<length cols. cols ! j = k \<and> j < length (fetched ! i) \<and>
           serialize_value (fetched ! i ! j) = Inr v) \<and>
      (distinct cols \<longrightarrow>
         map fst (ds ! i) = cols \<and>
         (\<forall>j<length cols. j < length (fetched ! i) \<and>
            serialize_value (fetched ! i ! j) = Inr (snd (ds ! i ! j))))"
      using row_as_dict_keys_all [OF r] row_as_dict_cells [OF r]
        row_as_dict_distinct_all [OF r]
      by blast
  qed
  have fields: "rows out = Some ds" "columns out = Some cols"
    "row_count out = int (length fetched)" "error out = None" "error_type out = None"
    unfolding out using len by (simp_all add: SQLQueryOutput_init_def)
  from f k fields len each show ?thesis by blast
qed

lemma try_body_select_same_name_twice:
  "try_body select_same_name_twice url q ps =
     (Inr select_same_name_twice_output,
      [CreateEngine url (connect_args url), Connect, Execute q (bound_params ps), Fetchall, Close])"
  by (simp add: try_body_def in_connection_def handle_result_def select_same_name_twice_def
      select_same_name_twice_output_def answering_def row_getitem_def SQLQueryOutput_init_def)

text \<open>
  Two columns of the same name leave one key in the row's dict, holding the value of the
  second: the keys of the row are not the column list.
\<close>

theorem row_keys_differ_from_columns_counterexample:
  "fst (execute_query_sync select_same_name_twice select_one_url
          (lit ''SELECT 1 AS x, 2 AS x'') None) = Inr select_same_name_twice_output \<and>
   success select_same_name_twice_output \<and>
   columns select_same_name_twice_output = Some [lit ''x'', lit ''x''] \<and>
   rows select_same_name_twice_output = Some [[(lit ''x'', PyInt 2)]] \<and>
   map fst [(lit ''x'', PyInt 2)] \<noteq> [lit ''x'', lit ''x'']"
  by (simp add: execute_query_sync_def try_body_select_same_name_twice)
     (simp add: select_same_name_twice_output_def)

theorem row_returning_result_witness:
  "execute_query_sync select_one select_one_url (lit ''SELECT 1 AS x'') None =
     (Inr select_one_output,
      [CreateEngine select_one_url (connect_args select_one_url), Connect,
       Execute (lit ''SELECT 1 AS x'') (bound_params None), Fetchall, Close]) \<and>
   success select_one_output \<and>
   execute select_one (lit ''SELECT 1 AS x'') (bound_params None) = Inr select_one_result \<and>
   returns_rows select_one_result \<and>
   fetchall select_one_result = Inr [[PyInt 1]] \<and>
   keys select_one_result = Inr [lit ''x''] \<and>
   distinct [lit ''x''] \<and>
   rows select_one_output = Some [[(lit ''x'', PyInt 1)]] \<and>
   columns select_one_output = Some [lit ''x''] \<and>
   row_count select_one_output = 1 \<and>
   error select_one_output = None \<and> error_type select_one_output = None"
proof -
  have x: "execute_query_sync select_one select_one_url (lit ''SELECT 1 AS x'') None =
     (Inr select_one_output,
      [CreateEngine select_one_url (connect_args select_one_url), Connect,
       Execute (lit ''SELECT 1 AS x'') (bound_params None), Fetchall, Close])"
    by (simp add: execute_query_sync_def try_body_select_one)
  have s: "success select_one_output"
    by (simp add: select_one_output_def)
  have e: "execute select_one (lit ''SELECT 1 AS x'') (bound_params None) = Inr select_one_result"
    by (simp add: select_one_def answering_def)
  have r: "returns_rows select_one_result"
    by (simp add: select_one_result_def)
  from row_returning_result [OF x s e r] x s e r show ?thesis
    by (simp add: select_one_result_def select_one_output_def)
qed

end
